theory Spec2Isabelle
  imports Main "HOL-Library.Word"
begin

unbundle bit_operations_syntax

section \<open>Common types\<close>

type_synonym byte = "8 word"

text \<open>The failures the code can signal. \<open>malformed_packet\<close> and \<open>invalid_interface\<close>
  are the two exception classes thrown in the sources; \<open>invalid_address\<close> is the failure of building
  an address from text; \<open>out_of_bounds\<close> stands for a read or write outside the
  owning buffer, which the C++ code performs unchecked, and \<open>buffer_too_small\<close> for
  a serialization into a buffer that cannot hold it.\<close>

datatype error = malformed_packet | invalid_interface | invalid_address | out_of_bounds | buffer_too_small

section \<open>IEEE 802.11 tagged parameters\<close>

record IEEE802_11_Option =
  opt_option :: byte
  opt_length :: byte
  opt_value :: "byte list"

record IEEE802_11 =
  options :: "IEEE802_11_Option list"
  options_size :: "32 word"

text \<open>\<open>add_tagged_option\<close>: copies \<open>len\<close> bytes of \<open>val\<close> and appends the option;
  the size counter grows by \<open>len + 2\<close>.\<close>

definition add_tagged_option :: "byte \<Rightarrow> byte \<Rightarrow> byte list \<Rightarrow> IEEE802_11 \<Rightarrow> IEEE802_11" where
  "add_tagged_option opt len val st =
     st\<lparr> options := options st @
            [\<lparr> opt_option = opt, opt_length = len, opt_value = take (unat len) val \<rparr>],
         options_size := options_size st + (ucast len + 2) \<rparr>"

text \<open>\<open>parse_tagged_parameters\<close>: the buffer is the list of the \<open>total_sz\<close> bytes that
  remain; the early \<open>return\<close> on a length that overruns leaves the state as it is.\<close>

function parse_tagged_parameters :: "byte list \<Rightarrow> IEEE802_11 \<Rightarrow> IEEE802_11" where
  "parse_tagged_parameters buffer st =
     (if 2 \<le> length buffer then
        (let opcode = buffer ! 0;
             len = buffer ! 1;
             buffer' = drop 2 buffer
         in if length buffer' < unat len then st
            else parse_tagged_parameters (drop (unat len) buffer')
                   (add_tagged_option opcode len buffer' st))
      else st)"
  by pat_completeness auto
termination
  by (relation "measure (\<lambda>(buffer, st). length buffer)") auto

declare parse_tagged_parameters.simps [simp del]

text \<open>The wire form of a list of tagged parameters, and the tails at which the decoder
  stops: fewer than two bytes, or a declared length that overruns what is left.\<close>

fun encode_tagged :: "IEEE802_11_Option list \<Rightarrow> byte list" where
  "encode_tagged [] = []"
| "encode_tagged (p # ps) = opt_option p # opt_length p # opt_value p @ encode_tagged ps"

definition well_sized :: "IEEE802_11_Option \<Rightarrow> bool" where
  "well_sized p = (length (opt_value p) = unat (opt_length p))"

definition stops_at :: "byte list \<Rightarrow> bool" where
  "stops_at tail = (length tail < 2 \<or> length tail - 2 < unat (tail ! 1))"

fun options_bytes :: "IEEE802_11_Option list \<Rightarrow> 32 word" where
  "options_bytes [] = 0"
| "options_bytes (p # ps) = (ucast (opt_length p) + 2) + options_bytes ps"

section \<open>Byte order and bounded reads\<close>

definition be16 :: "byte \<Rightarrow> byte \<Rightarrow> 16 word" where
  "be16 hi lo = push_bit 8 (ucast hi) OR ucast lo"

definition be16_bytes :: "16 word \<Rightarrow> byte list" where
  "be16_bytes w = [ucast (drop_bit 8 w), ucast w]"

definition be32_bytes :: "32 word \<Rightarrow> byte list" where
  "be32_bytes w = [ucast (drop_bit 24 w), ucast (drop_bit 16 w), ucast (drop_bit 8 w), ucast w]"

text \<open>Modelled from the spec: \<open>InputMemoryStream\<close> (memory_helpers.h is not among the
  sources). A stream is the list of the bytes that remain; \<open>can_read n\<close> holds when at
  least \<open>n\<close> bytes remain, and a read or skip past the end fails with
  \<open>malformed_packet\<close>.\<close>

definition can_read :: "byte list \<Rightarrow> nat \<Rightarrow> bool" where
  "can_read stream n = (n \<le> length stream)"

definition skip :: "nat \<Rightarrow> byte list \<Rightarrow> error + byte list" where
  "skip n stream = (if can_read stream n then Inr (drop n stream) else Inl malformed_packet)"

definition read_be16 :: "byte list \<Rightarrow> error + (16 word \<times> byte list)" where
  "read_be16 stream =
     (if can_read stream 2 then Inr (be16 (stream ! 0) (stream ! 1), drop 2 stream)
      else Inl malformed_packet)"

text \<open>A \<open>memcpy\<close> of two bytes out of \<open>records_data\<close> at a raw pointer, as
  \<open>update_records\<close> does it: no check in the source, so a read past the vector is
  recorded as \<open>out_of_bounds\<close>.\<close>

definition read16_at :: "byte list \<Rightarrow> nat \<Rightarrow> error + 16 word" where
  "read16_at rd p =
     (if p + 2 \<le> length rd then Inr (be16 (rd ! p) (rd ! (p + 1))) else Inl out_of_bounds)"

definition write16_at :: "byte list \<Rightarrow> nat \<Rightarrow> 16 word \<Rightarrow> byte list" where
  "write16_at rd p w = rd[p := ucast (drop_bit 8 w), p + 1 := ucast w]"

section \<open>DNS\<close>

text \<open>The record type numbers of \<open>DNS::QueryType\<close> that the code tests (dns.h is not
  among the sources; the values are those of the enumeration, which follows RFC 1035,
  RFC 3596 and RFC 6672).\<close>

definition A :: "16 word" where "A = 1"
definition NS :: "16 word" where "NS = 2"
definition CNAME :: "16 word" where "CNAME = 5"
definition PTR :: "16 word" where "PTR = 12"
definition MX :: "16 word" where "MX = 15"
definition AAAA :: "16 word" where "AAAA = 28"
definition DNAM :: "16 word" where "DNAM = 39"

record dns_header =
  hdr_id :: "16 word"
  hdr_flags :: "16 word"
  questions :: "16 word"
  answers :: "16 word"
  authority :: "16 word"
  additional :: "16 word"

record DNS =
  dns_hdr :: dns_header
  records_data :: "byte list"
  answers_idx :: "32 word"
  authority_idx :: "32 word"
  additional_idx :: "32 word"

record Query =
  q_dname :: string
  q_type :: "16 word"
  q_class :: "16 word"

record Resource =
  r_dname :: string
  r_data :: string
  r_type :: "16 word"
  r_class :: "16 word"
  r_ttl :: "32 word"

text \<open>The counts are kept big-endian in the header and read through
  \<open>Endian::be_to_host\<close>; the model keeps their values and writes them big-endian on
  serialization.\<close>

definition questions_count :: "DNS \<Rightarrow> 16 word" where
  "questions_count d = questions (dns_hdr d)"

definition answers_count :: "DNS \<Rightarrow> 16 word" where
  "answers_count d = answers (dns_hdr d)"

definition authority_count :: "DNS \<Rightarrow> 16 word" where
  "authority_count d = authority (dns_hdr d)"

definition additional_count :: "DNS \<Rightarrow> 16 word" where
  "additional_count d = additional (dns_hdr d)"

definition DNS_default :: DNS where
  "DNS_default =
     \<lparr> dns_hdr = \<lparr> hdr_id = 0, hdr_flags = 0, questions = 0, answers = 0,
                    authority = 0, additional = 0 \<rparr>,
       records_data = [], answers_idx = 0, authority_idx = 0, additional_idx = 0 \<rparr>"

subsection \<open>Walking names in the constructor\<close>

text \<open>\<open>skip_to_dname_end\<close>: \<open>while (stream)\<close> ends quietly on an exhausted stream;
  \<open>stream.skip\<close> fails when it overruns.\<close>

function skip_to_dname_end :: "byte list \<Rightarrow> error + byte list" where
  "skip_to_dname_end stream =
     (case stream of
        [] \<Rightarrow> Inr []
      | v # rest \<Rightarrow>
          if v = 0 then Inr rest
          else if v AND 0xc0 \<noteq> 0 then skip 1 rest
          else if can_read rest (unat v) then skip_to_dname_end (drop (unat v) rest)
          else Inl malformed_packet)"
  by pat_completeness auto
termination
  by (relation "measure length") auto

declare skip_to_dname_end.simps [simp del]

fun skip_questions :: "nat \<Rightarrow> byte list \<Rightarrow> error + byte list" where
  "skip_questions 0 stream = Inr stream"
| "skip_questions (Suc n) stream =
     (case skip_to_dname_end stream of
        Inl e \<Rightarrow> Inl e
      | Inr s1 \<Rightarrow> (case skip 4 s1 of Inl e \<Rightarrow> Inl e | Inr s2 \<Rightarrow> skip_questions n s2))"

fun skip_to_section_end :: "byte list \<Rightarrow> nat \<Rightarrow> error + byte list" where
  "skip_to_section_end stream 0 = Inr stream"
| "skip_to_section_end stream (Suc n) =
     (case skip_to_dname_end stream of
        Inl e \<Rightarrow> Inl e
      | Inr s1 \<Rightarrow>
          (case skip 8 s1 of
             Inl e \<Rightarrow> Inl e
           | Inr s2 \<Rightarrow>
               (case read_be16 s2 of
                  Inl e \<Rightarrow> Inl e
                | Inr (data_size, s3) \<Rightarrow>
                    if \<not> can_read s3 (unat data_size) then Inl malformed_packet
                    else (case skip (unat data_size) s3 of
                            Inl e \<Rightarrow> Inl e
                          | Inr s4 \<Rightarrow> skip_to_section_end s4 n))))"

definition read_dns_header :: "byte list \<Rightarrow> dns_header" where
  "read_dns_header b =
     \<lparr> hdr_id = be16 (b ! 0) (b ! 1), hdr_flags = be16 (b ! 2) (b ! 3),
       questions = be16 (b ! 4) (b ! 5), answers = be16 (b ! 6) (b ! 7),
       authority = be16 (b ! 8) (b ! 9), additional = be16 (b ! 10) (b ! 11) \<rparr>"

definition write_dns_header :: "dns_header \<Rightarrow> byte list" where
  "write_dns_header h =
     be16_bytes (hdr_id h) @ be16_bytes (hdr_flags h) @ be16_bytes (questions h) @
     be16_bytes (answers h) @ be16_bytes (authority h) @ be16_bytes (additional h)"

text \<open>The constructor \<open>DNS(buffer, total_sz)\<close>. The three offsets are the distances of
  the stream's pointer from the start of \<open>records_data\<close>.\<close>

definition DNS_parse :: "byte list \<Rightarrow> error + DNS" where
  "DNS_parse buffer =
     (if \<not> can_read buffer 12 then Inl malformed_packet
      else
        let hdr = read_dns_header (take 12 buffer);
            rd = drop 12 buffer;
            d0 = \<lparr> dns_hdr = hdr, records_data = rd, answers_idx = 0,
                   authority_idx = 0, additional_idx = 0 \<rparr>
        in if rd = [] then Inr d0
           else
             (case skip_questions (unat (questions hdr)) rd of
                Inl e \<Rightarrow> Inl e
              | Inr s1 \<Rightarrow>
                  (case skip_to_section_end s1 (unat (answers hdr)) of
                     Inl e \<Rightarrow> Inl e
                   | Inr s2 \<Rightarrow>
                       (case skip_to_section_end s2 (unat (authority hdr)) of
                          Inl e \<Rightarrow> Inl e
                        | Inr s3 \<Rightarrow>
                            Inr (d0\<lparr> answers_idx := of_nat (length rd - length s1),
                                     authority_idx := of_nat (length rd - length s2),
                                     additional_idx := of_nat (length rd - length s3) \<rparr>)))))"

definition DNS_header_size :: "DNS \<Rightarrow> nat" where
  "DNS_header_size d = 12 + length (records_data d)"

text \<open>\<open>write_serialization\<close>: the header, then \<open>records_data\<close>.\<close>

definition DNS_serialize :: "DNS \<Rightarrow> byte list" where
  "DNS_serialize d = write_dns_header (dns_hdr d) @ records_data d"

subsection \<open>Encoding a name\<close>

text \<open>\<open>std::string::find(c, pos)\<close>: the first index at or after \<open>pos\<close> that holds
  \<open>c\<close>, or \<open>npos\<close>.\<close>

definition find_char :: "char \<Rightarrow> string \<Rightarrow> nat \<Rightarrow> nat option" where
  "find_char c s pos =
     (case filter (\<lambda>i. s ! i = c) [pos..<length s] of [] \<Rightarrow> None | i # _ \<Rightarrow> Some i)"

definition char_byte :: "char \<Rightarrow> byte" where
  "char_byte c = of_char c"

function encode_labels :: "string \<Rightarrow> nat \<Rightarrow> byte list \<Rightarrow> byte list" where
  "encode_labels dn last_index outp =
     (case find_char (CHR ''.'') dn (last_index + 1) of
        Some index \<Rightarrow>
          encode_labels dn (index + 1)
            (outp @ [of_nat (index - last_index)] @
             map char_byte (take (index - last_index) (drop last_index dn)))
      | None \<Rightarrow>
          outp @ [of_nat (length dn - last_index)] @ map char_byte (drop last_index dn))"
  by pat_completeness auto
termination
proof (relation "measure (\<lambda>(dn, last_index, outp). length dn - last_index)")
  show "wf (measure (\<lambda>(dn, last_index, outp). length dn - last_index))" by simp
next
  fix dn :: string and last_index :: nat and outp :: "byte list" and index :: nat
  assume f: "find_char (CHR ''.'') dn (last_index + 1) = Some index"
  then obtain rest where
    "filter (\<lambda>i. dn ! i = CHR ''.'') [last_index + 1..<length dn] = index # rest"
    by (auto simp: find_char_def split: list.splits)
  then have "index \<in> set (filter (\<lambda>i. dn ! i = CHR ''.'') [last_index + 1..<length dn])"
    by simp
  then have "last_index + 1 \<le> index \<and> index < length dn" by auto
  then show "((dn, index + 1, outp @ [of_nat (index - last_index)] @
                 map char_byte (take (index - last_index) (drop last_index dn))),
              (dn, last_index, outp))
             \<in> measure (\<lambda>(dn, last_index, outp). length dn - last_index)"
    by (simp, arith)
qed

declare encode_labels.simps [simp del]

definition encode_domain_name :: "string \<Rightarrow> byte list" where
  "encode_domain_name dn = (if dn \<noteq> [] then encode_labels dn 0 [] else []) @ [0]"

subsection \<open>Decoding a name\<close>

text \<open>The loop of \<open>compose_name\<close>. \<open>ptr\<close> is an index into \<open>records_data\<close>, \<open>out\<close>
  the bytes written to the output buffer so far, \<open>end_ptr\<close> the saved end of the
  original name. The loop has no bound of its own, so it is a partial function:
  \<open>None\<close> is a run that never leaves the loop. \<open>*ptr\<close> at or past the end of the
  vector is an unchecked read.\<close>

partial_function (option) compose_name_loop ::
  "byte list \<Rightarrow> nat \<Rightarrow> byte list \<Rightarrow> nat option \<Rightarrow> (error + nat \<times> byte list \<times> nat option) option"
where
  "compose_name_loop rd ptr out end_ptr =
     (if length rd \<le> ptr then Some (Inl out_of_bounds)
      else if rd ! ptr = 0 then Some (Inr (ptr, out, end_ptr))
      else if rd ! ptr AND 0xc0 \<noteq> 0 then
        (if length rd < ptr + 2 then Some (Inl malformed_packet)
         else
           let index = be16 (rd ! ptr) (rd ! (ptr + 1)) AND 0x3fff
           in if index < 0x0c \<or> length rd \<le> unat index - 0x0c then Some (Inl malformed_packet)
              else compose_name_loop rd (unat index - 0x0c) out
                     (if end_ptr = None then Some (ptr + 2) else end_ptr))
      else
        (let label_size = unat (rd ! ptr);
             ptr1 = ptr + 1
         in if length rd < ptr1 + label_size \<or> 255 < length out + label_size + 1
            then Some (Inl malformed_packet)
            else compose_name_loop rd (ptr1 + label_size)
                   (out @ (if out \<noteq> [] then [0x2e] else []) @ take label_size (drop ptr1 rd))
                   end_ptr))"

declare compose_name_loop.simps [code]

text \<open>\<open>compose_name\<close>: the number of bytes consumed in the original stream, and the
  dotted name.\<close>

definition compose_name :: "byte list \<Rightarrow> nat \<Rightarrow> (error + nat \<times> byte list) option" where
  "compose_name rd start_ptr =
     (case compose_name_loop rd start_ptr [] None of
        None \<Rightarrow> None
      | Some (Inl e) \<Rightarrow> Some (Inl e)
      | Some (Inr (ptr, out, end_ptr)) \<Rightarrow>
          Some (Inr ((case end_ptr of None \<Rightarrow> ptr + 1 | Some e \<Rightarrow> e) - start_ptr, out)))"

text \<open>\<open>queries\<close>: the stream runs over the first \<open>answers_idx\<close> bytes of
  \<open>records_data\<close>. The name buffer is a C string, so the name of the \<open>Query\<close> ends at
  its first zero byte.\<close>

definition c_string :: "byte list \<Rightarrow> string" where
  "c_string b = map (\<lambda>x. char_of (unat x)) (takeWhile (\<lambda>x. x \<noteq> 0) b)"

partial_function (option) queries_loop ::
  "byte list \<Rightarrow> nat \<Rightarrow> nat \<Rightarrow> Query list \<Rightarrow> (error + Query list) option"
where
  "queries_loop rd pos lim acc =
     (if lim \<le> pos then Some (Inr acc)
      else
        (case compose_name rd pos of
           None \<Rightarrow> None
         | Some (Inl e) \<Rightarrow> Some (Inl e)
         | Some (Inr (n, name)) \<Rightarrow>
             if lim - pos < n then Some (Inl malformed_packet)
             else if lim - (pos + n) < 2 then Some (Inl malformed_packet)
             else if lim - (pos + n + 2) < 2 then Some (Inl malformed_packet)
             else queries_loop rd (pos + n + 4) lim
                    (acc @ [\<lparr> q_dname = c_string name,
                              q_type = be16 (rd ! (pos + n)) (rd ! (pos + n + 1)),
                              q_class = be16 (rd ! (pos + n + 2)) (rd ! (pos + n + 3)) \<rparr>])))"

declare queries_loop.simps [code]

definition queries :: "DNS \<Rightarrow> (error + Query list) option" where
  "queries d =
     (if records_data d = [] then Some (Inr [])
      else if length (records_data d) < unat (answers_idx d) then Some (Inl out_of_bounds)
      else queries_loop (records_data d) 0 (unat (answers_idx d)) [])"

subsection \<open>Shifting compression pointers\<close>

definition contains_dname :: "16 word \<Rightarrow> bool" where
  "contains_dname type = (type = MX \<or> type = CNAME \<or> type = PTR \<or> type = NS)"

text \<open>\<open>update_dname\<close> works on raw pointers without length checks; the model returns
  the updated vector and the returned pointer as an index, and \<open>out_of_bounds\<close> where
  the source would read or write outside \<open>records_data\<close>. \<open>index + offset\<close> is
  computed in 32 bits and cut to 16 bits by \<open>host_to_be<uint16_t>\<close>.\<close>

function update_dname ::
  "byte list \<Rightarrow> nat \<Rightarrow> 32 word \<Rightarrow> 32 word \<Rightarrow> error + byte list \<times> nat"
where
  "update_dname rd ptr threshold offset =
     (if length rd \<le> ptr then Inl out_of_bounds
      else if rd ! ptr = 0 then Inr (rd, ptr)
      else if rd ! ptr AND 0xc0 \<noteq> 0 then
        (if length rd < ptr + 2 then Inl out_of_bounds
         else
           let index = be16 (rd ! ptr) (rd ! (ptr + 1)) AND 0x3fff
           in if threshold < ucast index
              then Inr (write16_at rd ptr (ucast (ucast index + offset) OR 0xc000), ptr + 2)
              else Inr (rd, ptr + 2))
      else update_dname rd (ptr + (unat (rd ! ptr) + 1)) threshold offset)"
  by pat_completeness auto
termination
  by (relation "measure (\<lambda>(rd, ptr, threshold, offset). length rd - ptr)") auto

declare update_dname.simps [simp del]

text \<open>One round of the \<open>for\<close> loop of \<open>update_records\<close>.\<close>

definition update_record ::
  "byte list \<Rightarrow> nat \<Rightarrow> 32 word \<Rightarrow> 32 word \<Rightarrow> error + byte list \<times> nat"
where
  "update_record rd ptr threshold offset =
     (case update_dname rd ptr threshold offset of
        Inl e \<Rightarrow> Inl e
      | Inr (rd1, ptr1) \<Rightarrow>
          (case read16_at rd1 ptr1 of
             Inl e \<Rightarrow> Inl e
           | Inr type \<Rightarrow>
               (case read16_at rd1 (ptr1 + 8) of
                  Inl e \<Rightarrow> Inl e
                | Inr data_size \<Rightarrow>
                    let ptr2 = (if type = MX then ptr1 + 10 + 2 else ptr1 + 10);
                        size2 = (if type = MX then data_size - 2 else data_size)
                    in if contains_dname type
                       then (case update_dname rd1 ptr2 threshold offset of
                               Inl e \<Rightarrow> Inl e
                             | Inr (rd2, ptr3) \<Rightarrow> Inr (rd2, ptr2 + unat size2))
                       else Inr (rd1, ptr2 + unat size2))))"

fun update_records_loop ::
  "nat \<Rightarrow> byte list \<Rightarrow> nat \<Rightarrow> 32 word \<Rightarrow> 32 word \<Rightarrow> error + byte list \<times> nat"
where
  "update_records_loop 0 rd ptr threshold offset = Inr (rd, ptr)"
| "update_records_loop (Suc n) rd ptr threshold offset =
     (case update_record rd ptr threshold offset of
        Inl e \<Rightarrow> Inl e
      | Inr (rd1, ptr1) \<Rightarrow> update_records_loop n rd1 ptr1 threshold offset)"

text \<open>\<open>update_records\<close>: returns the vector and the new value of \<open>section_start\<close>.\<close>

definition update_records ::
  "byte list \<Rightarrow> 32 word \<Rightarrow> 32 word \<Rightarrow> 32 word \<Rightarrow> 32 word \<Rightarrow> error + byte list \<times> 32 word"
where
  "update_records rd section_start num_records threshold offset =
     (if unat section_start < length rd then
        (case update_records_loop (unat num_records) rd (unat section_start) threshold offset of
           Inl e \<Rightarrow> Inl e
         | Inr (rd1, ptr) \<Rightarrow> Inr (rd1, section_start + offset))
      else Inr (rd, section_start + offset))"

subsection \<open>Adding records\<close>

definition add_query :: "Query \<Rightarrow> DNS \<Rightarrow> error + DNS" where
  "add_query query d =
     (let new_str = encode_domain_name (q_dname query) @
                    be16_bytes (q_type query) @ be16_bytes (q_class query);
          offset = (of_nat (length new_str) :: 32 word);
          threshold = answers_idx d
      in case update_records (records_data d) (answers_idx d) (ucast (answers_count d))
                threshold offset of
           Inl e \<Rightarrow> Inl e
         | Inr (rd1, answers_idx1) \<Rightarrow>
             (case update_records rd1 (authority_idx d) (ucast (authority_count d))
                     threshold offset of
                Inl e \<Rightarrow> Inl e
              | Inr (rd2, authority_idx1) \<Rightarrow>
                  (case update_records rd2 (additional_idx d) (ucast (additional_count d))
                          threshold offset of
                     Inl e \<Rightarrow> Inl e
                   | Inr (rd3, additional_idx1) \<Rightarrow>
                       if length rd3 < unat threshold then Inl out_of_bounds
                       else Inr (d\<lparr> dns_hdr := (dns_hdr d)\<lparr> questions := questions_count d + 1 \<rparr>,
                                    records_data := take (unat threshold) rd3 @ new_str @
                                                    drop (unat threshold) rd3,
                                    answers_idx := answers_idx1,
                                    authority_idx := authority_idx1,
                                    additional_idx := additional_idx1 \<rparr>))))"

text \<open>The sections that \<open>add_record\<close> shifts are handed over as pointers to the offsets,
  paired with the record counts; the model names the sections.\<close>

datatype dns_section = authority_section | additional_section

fun section_idx :: "dns_section \<Rightarrow> DNS \<Rightarrow> 32 word" where
  "section_idx authority_section d = authority_idx d"
| "section_idx additional_section d = additional_idx d"

fun section_count :: "dns_section \<Rightarrow> DNS \<Rightarrow> 16 word" where
  "section_count authority_section d = authority_count d"
| "section_count additional_section d = additional_count d"

fun set_section_idx :: "dns_section \<Rightarrow> 32 word \<Rightarrow> DNS \<Rightarrow> DNS" where
  "set_section_idx authority_section v d = d\<lparr> authority_idx := v \<rparr>"
| "set_section_idx additional_section v d = d\<lparr> additional_idx := v \<rparr>"

fun update_sections :: "dns_section list \<Rightarrow> 32 word \<Rightarrow> 32 word \<Rightarrow> DNS \<Rightarrow> error + DNS" where
  "update_sections [] threshold offset d = Inr d"
| "update_sections (s # ss) threshold offset d =
     (case update_records (records_data d) (section_idx s d) (ucast (section_count s d))
             threshold offset of
        Inl e \<Rightarrow> Inl e
      | Inr (rd1, idx1) \<Rightarrow>
          update_sections ss threshold offset (set_section_idx s idx1 (d\<lparr> records_data := rd1 \<rparr>)))"

text \<open>\<open>add_record\<close>. The conversions of the textual data to an IPv4 and an IPv6 address
  belong to the address classes (ip_address.h and ipv6_address.h are not among the
  sources): they are the parameters \<open>to_v4\<close> and \<open>to_v6\<close>, which give the 4 and the 16
  bytes of the address, or \<open>None\<close> where the conversion throws.\<close>

definition add_record ::
  "(string \<Rightarrow> byte list option) \<Rightarrow> (string \<Rightarrow> byte list option) \<Rightarrow> Resource \<Rightarrow>
   dns_section list \<Rightarrow> DNS \<Rightarrow> error + DNS"
where
  "add_record to_v4 to_v6 resource sections d =
     (let buffer = encode_domain_name (r_dname resource);
          type = r_type resource
      in if type = A \<and> to_v4 (r_data resource) = None then Inl invalid_address
         else if type \<noteq> A \<and> type = AAAA \<and> to_v6 (r_data resource) = None then Inl invalid_address
         else
           let encoded_data = (if type \<noteq> A \<and> type \<noteq> AAAA \<and> contains_dname type
                               then encode_domain_name (r_data resource) else []);
               data_size = (if type = A then 4
                            else if type = AAAA then 16
                            else if contains_dname type then length encoded_data
                            else length (r_data resource));
               offset = length buffer + 10 + data_size + (if type = MX then 2 else 0);
               threshold = (case sections of
                              [] \<Rightarrow> length (records_data d)
                            | s # ss \<Rightarrow> unat (section_idx s d))
           in case update_sections sections (of_nat threshold) (of_nat offset) d of
                Inl e \<Rightarrow> Inl e
              | Inr d1 \<Rightarrow>
                  if length (records_data d1) < threshold then Inl out_of_bounds
                  else
                    let body = buffer @ be16_bytes type @ be16_bytes (r_class resource) @
                               be32_bytes (r_ttl resource) @
                               be16_bytes (of_nat (data_size + (if type = MX then 2 else 0))) @
                               (if type = MX then [0, 0] else []) @
                               (if type = A then take 4 (the (to_v4 (r_data resource)))
                                else if type = AAAA then take 16 (the (to_v6 (r_data resource)))
                                else if encoded_data \<noteq> [] then encoded_data
                                else map char_byte (r_data resource))
                    in Inr (d1\<lparr> records_data :=
                                  take threshold (records_data d1) @
                                  take offset (body @ replicate offset 0) @
                                  drop threshold (records_data d1) \<rparr>))"

definition add_answer ::
  "(string \<Rightarrow> byte list option) \<Rightarrow> (string \<Rightarrow> byte list option) \<Rightarrow> Resource \<Rightarrow> DNS \<Rightarrow> error + DNS"
where
  "add_answer to_v4 to_v6 resource d =
     (case add_record to_v4 to_v6 resource [authority_section, additional_section] d of
        Inl e \<Rightarrow> Inl e
      | Inr d1 \<Rightarrow> Inr (d1\<lparr> dns_hdr := (dns_hdr d1)\<lparr> answers := answers_count d1 + 1 \<rparr> \<rparr>))"

definition add_authority ::
  "(string \<Rightarrow> byte list option) \<Rightarrow> (string \<Rightarrow> byte list option) \<Rightarrow> Resource \<Rightarrow> DNS \<Rightarrow> error + DNS"
where
  "add_authority to_v4 to_v6 resource d =
     (case add_record to_v4 to_v6 resource [additional_section] d of
        Inl e \<Rightarrow> Inl e
      | Inr d1 \<Rightarrow> Inr (d1\<lparr> dns_hdr := (dns_hdr d1)\<lparr> authority := authority_count d1 + 1 \<rparr> \<rparr>))"

definition add_additional ::
  "(string \<Rightarrow> byte list option) \<Rightarrow> (string \<Rightarrow> byte list option) \<Rightarrow> Resource \<Rightarrow> DNS \<Rightarrow> error + DNS"
where
  "add_additional to_v4 to_v6 resource d =
     (case add_record to_v4 to_v6 resource [] d of
        Inl e \<Rightarrow> Inl e
      | Inr d1 \<Rightarrow> Inr (d1\<lparr> dns_hdr := (dns_hdr d1)\<lparr> additional := additional_count d1 + 1 \<rparr> \<rparr>))"

section \<open>IPv6\<close>

text \<open>The fixed header as the 40 bytes it is read from and written to (ipv6.h is not
  among the sources): the four bytes of version, traffic class and flow label are kept
  as they are on the wire, the payload length by its value.\<close>

record ipv6_header =
  version_class_flow :: "byte list"
  payload_length :: "16 word"
  next_header :: byte
  hop_limit :: byte
  src_addr :: "byte list"
  dst_addr :: "byte list"

text \<open>An extension header as stored (\<open>PDUOption\<close>, pdu_option.h is not among the
  sources): the option byte, the length it was built with, and its payload.\<close>

record ext_header =
  eh_option :: byte
  length_field :: nat
  eh_data :: "byte list"

text \<open>The inner units. \<open>RawPDU\<close> holds its payload; every other kind of unit is known
  here by the number of its \<open>PDU::PDUType\<close> and by its bytes.\<close>

datatype pdu_type = RAW | OTHER nat

datatype inner_pdu = RawPDU "byte list" | OtherPDU nat "byte list"

fun pdu_type_of :: "inner_pdu \<Rightarrow> pdu_type" where
  "pdu_type_of (RawPDU payload) = RAW"
| "pdu_type_of (OtherPDU k payload) = OTHER k"

fun inner_size :: "inner_pdu \<Rightarrow> nat" where
  "inner_size (RawPDU payload) = length payload"
| "inner_size (OtherPDU k payload) = length payload"

fun inner_bytes :: "inner_pdu \<Rightarrow> byte list" where
  "inner_bytes (RawPDU payload) = payload"
| "inner_bytes (OtherPDU k payload) = payload"

text \<open>The collaborators in \<open>Internals\<close> (internals.h and pdu_allocator.h are not among
  the sources) are parameters: the two constructors by discriminator, which give no
  unit (\<open>None\<close>) when nothing is registered for it and may fail like any parser; the
  built-in table from a kind to its IP protocol number, \<open>0xff\<close> when it has none; the
  allocator registry of the IPv6 tag; and the inner unit's own \<open>matches_response\<close>.\<close>

record internals =
  pdu_from_flag :: "byte \<Rightarrow> byte list \<Rightarrow> error + inner_pdu option"
  allocate :: "byte \<Rightarrow> byte list \<Rightarrow> error + inner_pdu option"
  pdu_flag_to_ip_type :: "pdu_type \<Rightarrow> byte"
  pdu_type_registered :: "pdu_type \<Rightarrow> bool"
  pdu_type_to_id :: "pdu_type \<Rightarrow> byte"
  inner_matches_response :: "inner_pdu \<Rightarrow> byte list \<Rightarrow> bool"

record IPv6 =
  header :: ipv6_header
  ext_headers :: "ext_header list"
  headers_size :: "32 word"
  inner_pdu :: "inner_pdu option"

text \<open>The values of \<open>IPv6::ExtensionHeader\<close> (RFC 8200 and the IANA protocol numbers).\<close>

definition HOP_BY_HOP :: byte where "HOP_BY_HOP = 0"
definition DESTINATION_ROUTING_OPTIONS :: byte where "DESTINATION_ROUTING_OPTIONS = 60"
definition ROUTING :: byte where "ROUTING = 43"
definition FRAGMENT :: byte where "FRAGMENT = 44"
definition AUTHENTICATION :: byte where "AUTHENTICATION = 51"
definition SECURITY_ENCAPSULATION :: byte where "SECURITY_ENCAPSULATION = 50"
definition DESTINATION_OPTIONS :: byte where "DESTINATION_OPTIONS = 60"
definition MOBILITY :: byte where "MOBILITY = 135"
definition NO_NEXT_HEADER :: byte where "NO_NEXT_HEADER = 59"

definition is_extension_header :: "byte \<Rightarrow> bool" where
  "is_extension_header header_id =
     (header_id = HOP_BY_HOP \<or> header_id = DESTINATION_ROUTING_OPTIONS
      \<or> header_id = ROUTING \<or> header_id = FRAGMENT \<or> header_id = AUTHENTICATION
      \<or> header_id = SECURITY_ENCAPSULATION \<or> header_id = DESTINATION_OPTIONS
      \<or> header_id = MOBILITY \<or> header_id = NO_NEXT_HEADER)"

definition read_ipv6_header :: "byte list \<Rightarrow> ipv6_header" where
  "read_ipv6_header b =
     \<lparr> version_class_flow = take 4 b, payload_length = be16 (b ! 4) (b ! 5),
       next_header = b ! 6, hop_limit = b ! 7,
       src_addr = take 16 (drop 8 b), dst_addr = take 16 (drop 24 b) \<rparr>"

definition write_ipv6_header :: "ipv6_header \<Rightarrow> byte list" where
  "write_ipv6_header h =
     version_class_flow h @ be16_bytes (payload_length h) @ [next_header h, hop_limit h] @
     src_addr h @ dst_addr h"

definition add_ext_header :: "ext_header \<Rightarrow> IPv6 \<Rightarrow> IPv6" where
  "add_ext_header h u =
     u\<lparr> ext_headers := ext_headers u @ [h],
        headers_size := headers_size u + of_nat (length (eh_data h) + 2) \<rparr>"

text \<open>The loop of the constructor \<open>IPv6(buffer, total_sz)\<close>, after the fixed header has
  been read: \<open>stream\<close> is what remains. The two control bytes are read before the
  \<open>can_read(ext_size)\<close> test, which therefore looks at the bytes after them.\<close>

function parse_headers :: "internals \<Rightarrow> byte \<Rightarrow> byte list \<Rightarrow> IPv6 \<Rightarrow> error + IPv6" where
  "parse_headers env current_header stream u =
     (if stream = [] then Inr u
      else if is_extension_header current_header then
        (case tl stream of
           [] \<Rightarrow> Inl malformed_packet
         | len # rest \<Rightarrow>
             let ext_type = hd stream;
                 ext_size = ((ucast len + 1) * 8 :: 32 word);
                 payload_size = ext_size - 2
             in if \<not> can_read rest (unat ext_size) then Inl malformed_packet
                else parse_headers env ext_type (drop (unat payload_size) rest)
                       (add_ext_header
                          \<lparr> eh_option = ext_type, length_field = unat payload_size,
                            eh_data = take (unat payload_size) rest \<rparr> u))
      else
        (case pdu_from_flag env current_header stream of
           Inl e \<Rightarrow> Inl e
         | Inr (Some p) \<Rightarrow> Inr (u\<lparr> inner_pdu := Some p \<rparr>)
         | Inr None \<Rightarrow>
             (case allocate env current_header stream of
                Inl e \<Rightarrow> Inl e
              | Inr (Some p) \<Rightarrow> Inr (u\<lparr> inner_pdu := Some p \<rparr>)
              | Inr None \<Rightarrow> Inr (u\<lparr> inner_pdu := Some (RawPDU stream) \<rparr>))))"
  by pat_completeness auto
termination
  by (relation "measure (\<lambda>(env, current_header, stream, u). length stream)")
     (auto simp: neq_Nil_conv)

declare parse_headers.simps [simp del]

definition IPv6_parse :: "internals \<Rightarrow> byte list \<Rightarrow> error + IPv6" where
  "IPv6_parse env buffer =
     (if \<not> can_read buffer 40 then Inl malformed_packet
      else
        let hdr = read_ipv6_header (take 40 buffer)
        in parse_headers env (next_header hdr) (drop 40 buffer)
             \<lparr> header = hdr, ext_headers = [], headers_size = 0, inner_pdu = None \<rparr>)"

definition IPv6_header_size :: "IPv6 \<Rightarrow> nat" where
  "IPv6_header_size u = 40 + unat (headers_size u)"

definition set_last_next_header :: "byte \<Rightarrow> IPv6 \<Rightarrow> IPv6" where
  "set_last_next_header v u =
     (if ext_headers u = [] then u\<lparr> header := (header u)\<lparr> next_header := v \<rparr> \<rparr>
      else u\<lparr> ext_headers := butlast (ext_headers u) @ [(last (ext_headers u))\<lparr> eh_option := v \<rparr>] \<rparr>)"

definition write_header :: "ext_header \<Rightarrow> byte list" where
  "write_header h = eh_option h # of_nat (length_field h div 8) # eh_data h"

text \<open>\<open>write_serialization\<close>: the unit as it is after the call, and the bytes written at
  the start of the buffer of \<open>total_sz\<close> bytes. The output stream is modelled from the
  spec (memory_helpers.h is not among the sources): a write past the buffer fails.\<close>

definition write_serialization :: "internals \<Rightarrow> IPv6 \<Rightarrow> nat \<Rightarrow> error + IPv6 \<times> byte list" where
  "write_serialization env u total_sz =
     (let u1 = (case inner_pdu u of
                  None \<Rightarrow> u
                | Some p \<Rightarrow>
                    let flag = pdu_flag_to_ip_type env (pdu_type_of p);
                        new_flag = (if flag = 0xff \<and> pdu_type_registered env (pdu_type_of p)
                                    then pdu_type_to_id env (pdu_type_of p) else flag)
                    in set_last_next_header new_flag u);
          u2 = u1\<lparr> header := (header u1)\<lparr> payload_length := of_nat (total_sz - 40) \<rparr> \<rparr>;
          written = write_ipv6_header (header u2) @ concat (map write_header (ext_headers u2))
      in if total_sz < length written then Inl buffer_too_small else Inr (u2, written))"

text \<open>Modelled from the spec: the caller of \<open>write_serialization\<close> (\<open>PDU::serialize\<close>,
  pdu.cpp is not among the sources). The buffer has the size of the whole chain; the
  unit writes its \<open>header_size()\<close> bytes at the start and the inner unit follows.\<close>

definition IPv6_serialize :: "internals \<Rightarrow> IPv6 \<Rightarrow> error + byte list" where
  "IPv6_serialize env u =
     (let inner_sz = (case inner_pdu u of None \<Rightarrow> 0 | Some p \<Rightarrow> inner_size p);
          inner_b = (case inner_pdu u of None \<Rightarrow> [] | Some p \<Rightarrow> inner_bytes p)
      in case write_serialization env u (IPv6_header_size u + inner_sz) of
           Inl e \<Rightarrow> Inl e
         | Inr (u1, written) \<Rightarrow> Inr (written @ inner_b))"

text \<open>The loop of \<open>matches_response\<close> that steps over the extension headers of the
  candidate: \<open>None\<close> is the early \<open>return false\<close>.\<close>

function skip_ext_headers :: "byte \<Rightarrow> byte list \<Rightarrow> (byte \<times> byte list) option" where
  "skip_ext_headers current ptr =
     (if 8 < length ptr \<and> is_extension_header current then
        (if length ptr < (unat (ptr ! 1) + 1) * 8 then None
         else skip_ext_headers (ptr ! 0) (drop ((unat (ptr ! 1) + 1) * 8) ptr))
      else Some (current, ptr))"
  by pat_completeness auto
termination
  by (relation "measure (\<lambda>(current, ptr). length ptr)") auto

declare skip_ext_headers.simps [simp del]

definition matches_response :: "internals \<Rightarrow> IPv6 \<Rightarrow> byte list \<Rightarrow> bool" where
  "matches_response env u ptr =
     (if length ptr < 40 then False
      else
        let hdr = read_ipv6_header (take 40 ptr)
        in if src_addr (header u) = dst_addr hdr \<and>
              (dst_addr (header u) = src_addr hdr \<or>
               (dst_addr (header u) ! 0 = 0xff \<and> dst_addr (header u) ! 1 = 0x02))
           then
             (case inner_pdu u of
                None \<Rightarrow> True
              | Some p \<Rightarrow>
                  (case skip_ext_headers (next_header hdr) (drop 40 ptr) of
                     None \<Rightarrow> False
                   | Some (current, rest) \<Rightarrow>
                       if \<not> is_extension_header current
                       then inner_matches_response env p rest else False))
           else False)"

section \<open>Network interfaces\<close>

text \<open>A routing table entry (\<open>Utils::RouteEntry\<close>, utils.h is not among the sources):
  the fields the constructor reads (\<open>route_mask\<close> is its field \<open>mask\<close>). Addresses
  and masks are 32-bit values.\<close>

record RouteEntry =
  interface :: string
  destination :: "32 word"
  route_mask :: "32 word"
  metric :: int

text \<open>The system the constructor asks: the routing table, \<open>if_nametoindex\<close> (0 when no
  interface has the name), and whether the platform is a BSD.\<close>

record system =
  route_entries :: "RouteEntry list"
  if_nametoindex :: "string \<Rightarrow> nat"
  is_bsd :: bool

definition resolve_index :: "system \<Rightarrow> string \<Rightarrow> error + nat" where
  "resolve_index sys name =
     (let id = if_nametoindex sys name in if id = 0 then Inl invalid_interface else Inr id)"

definition loopback_address :: "32 word" where
  "loopback_address = 0x7f000001"

text \<open>The \<open>for\<close> loop over the entries, with \<open>best_match\<close> as the accumulator.\<close>

fun find_best_match :: "32 word \<Rightarrow> RouteEntry list \<Rightarrow> RouteEntry option \<Rightarrow> RouteEntry option" where
  "find_best_match ip_int [] best_match = best_match"
| "find_best_match ip_int (e # entries) best_match =
     find_best_match ip_int entries
       (if ip_int AND route_mask e = destination e then
          (case best_match of
             None \<Rightarrow> Some e
           | Some b \<Rightarrow> if route_mask b < route_mask e \<or> metric e < metric b then Some e else Some b)
        else best_match)"

definition NetworkInterface_of_ip :: "system \<Rightarrow> 32 word \<Rightarrow> error + nat" where
  "NetworkInterface_of_ip sys ip =
     (if ip = loopback_address then
        (if is_bsd sys then resolve_index sys ''lo0'' else resolve_index sys ''lo'')
      else
        (case find_best_match ip (route_entries sys) None of
           None \<Rightarrow> Inl invalid_interface
         | Some best_match \<Rightarrow> resolve_index sys (interface best_match)))"

section \<open>Scenario data\<close>

text \<open>A DNS message with one question whose name is a compression pointer to offset 12,
  that is, to itself.\<close>

definition cyclic_question_packet :: "byte list" where
  "cyclic_question_packet = [0x12, 0x34, 0x01, 0x00, 0, 1, 0, 0, 0, 0, 0, 0,
                              0xc0, 0x0c, 0, 1, 0, 1]"

text \<open>A registry with nothing in it: no constructor for any discriminator, no
  discriminator for any kind.\<close>

definition no_registry :: internals where
  "no_registry =
     \<lparr> pdu_from_flag = (\<lambda>flag buffer. Inr None), allocate = (\<lambda>flag buffer. Inr None),
       pdu_flag_to_ip_type = (\<lambda>k. 0xff), pdu_type_registered = (\<lambda>k. False),
       pdu_type_to_id = (\<lambda>k. 0), inner_matches_response = (\<lambda>p buffer. False) \<rparr>"

text \<open>A registry whose built-in table knows one kind, \<open>OTHER 1\<close>, as protocol 6 (TCP).\<close>

definition tcp_registry :: internals where
  "tcp_registry =
     \<lparr> pdu_from_flag = (\<lambda>flag buffer. Inr None), allocate = (\<lambda>flag buffer. Inr None),
       pdu_flag_to_ip_type = (\<lambda>k. if k = OTHER 1 then 6 else 0xff),
       pdu_type_registered = (\<lambda>k. False),
       pdu_type_to_id = (\<lambda>k. 0), inner_matches_response = (\<lambda>p buffer. False) \<rparr>"

text \<open>An IPv6 address with the given first, second and last byte, zero in between.\<close>

definition addr6 :: "byte \<Rightarrow> byte \<Rightarrow> byte \<Rightarrow> byte list" where
  "addr6 b0 b1 b15 = [b0, b1, 0, 0, 0, 0, 0, 0, 0, 0, 0, 0, 0, 0, 0, b15]"

text \<open>The 40 bytes of the empty-payload scenario: next header 0x3b, hop limit 0x40,
  source and destination \<open>::1\<close>; and the unit they decode to.\<close>

definition empty_payload_packet :: "byte list" where
  "empty_payload_packet = [0x60, 0, 0, 0, 0, 0, 0x3b, 0x40] @ addr6 0 0 1 @ addr6 0 0 1"

definition empty_payload_unit :: IPv6 where
  "empty_payload_unit =
     \<lparr> header = \<lparr> version_class_flow = [0x60, 0, 0, 0], payload_length = 0,
                    next_header = 0x3b, hop_limit = 0x40,
                    src_addr = addr6 0 0 1, dst_addr = addr6 0 0 1 \<rparr>,
       ext_headers = [], headers_size = 0, inner_pdu = None \<rparr>"

text \<open>A fixed header with next header 0 (Hop-by-Hop), followed by exactly one 8-byte
  Hop-by-Hop header: next header 59 (none), length byte 0, and a PadN option of six
  bytes. 48 bytes in all, with payload length 8.\<close>

definition hop_by_hop_packet :: "byte list" where
  "hop_by_hop_packet =
     [0x60, 0, 0, 0, 0, 8, 0, 0x40] @ addr6 0 0 1 @ addr6 0 0 1 @ [0x3b, 0, 1, 4, 0, 0, 0, 0]"

text \<open>A unit with one stored extension header before an inner unit of kind \<open>OTHER 1\<close>.\<close>

definition chained_unit :: IPv6 where
  "chained_unit =
     \<lparr> header = \<lparr> version_class_flow = [0x60, 0, 0, 0], payload_length = 0,
                    next_header = 0, hop_limit = 0x40,
                    src_addr = addr6 0 0 1, dst_addr = addr6 0 0 2 \<rparr>,
       ext_headers = [\<lparr> eh_option = 0x3b, length_field = 6, eh_data = [1, 4, 0, 0, 0, 0] \<rparr>],
       headers_size = 8, inner_pdu = Some (OtherPDU 1 [0xaa, 0xbb]) \<rparr>"

text \<open>The source and destination address fields of a candidate reply.\<close>

definition candidate_src :: "byte list \<Rightarrow> byte list" where
  "candidate_src ptr = take 16 (drop 8 ptr)"

definition candidate_dst :: "byte list \<Rightarrow> byte list" where
  "candidate_dst ptr = take 16 (drop 24 ptr)"

text \<open>A unit without inner unit, from \<open>a\<close> to \<open>b\<close>, and a candidate reply from \<open>s\<close> to
  \<open>d\<close>.\<close>

definition client_unit :: "byte list \<Rightarrow> byte list \<Rightarrow> IPv6" where
  "client_unit a b =
     \<lparr> header = \<lparr> version_class_flow = [0x60, 0, 0, 0], payload_length = 0,
                    next_header = 0x3b, hop_limit = 0x40, src_addr = a, dst_addr = b \<rparr>,
       ext_headers = [], headers_size = 0, inner_pdu = None \<rparr>"

definition candidate_packet :: "byte list \<Rightarrow> byte list \<Rightarrow> byte list" where
  "candidate_packet s d = [0x60, 0, 0, 0, 0, 0, 0x3b, 0x40] @ s @ d"

text \<open>The discriminator registered for a kind: the entry of the built-in table, or
  else the entry of the allocator registry.\<close>

definition registered_discriminator :: "internals \<Rightarrow> pdu_type \<Rightarrow> byte option" where
  "registered_discriminator env k =
     (if pdu_flag_to_ip_type env k \<noteq> 0xff then Some (pdu_flag_to_ip_type env k)
      else if pdu_type_registered env k then Some (pdu_type_to_id env k)
      else None)"

text \<open>A fixed header whose three byte fields have the sizes of the structure.\<close>

definition well_formed_header :: "ipv6_header \<Rightarrow> bool" where
  "well_formed_header h =
     (length (version_class_flow h) = 4 \<and> length (src_addr h) = 16 \<and> length (dst_addr h) = 16)"

definition ext_headers_bytes :: "ext_header list \<Rightarrow> nat" where
  "ext_headers_bytes hs = length (concat (map write_header hs))"

text \<open>A routing table with a route to 10.0.0.0/8 of metric 5 through eth0 and a default
  route of metric 1 through eth1, and a system with the interfaces lo, eth0 and eth1.
  Addresses and masks are written as the numbers they are in host order; the test and
  the comparison of the constructor give the same result on their byte-swapped form.\<close>

definition two_routes :: "RouteEntry list" where
  "two_routes =
     [\<lparr> interface = ''eth0'', destination = 0x0a000000, route_mask = 0xff000000, metric = 5 \<rparr>,
      \<lparr> interface = ''eth1'', destination = 0, route_mask = 0, metric = 1 \<rparr>]"

definition three_interfaces :: "string \<Rightarrow> nat" where
  "three_interfaces name =
     (if name = ''lo'' then 1 else if name = ''eth0'' then 2 else if name = ''eth1'' then 3 else 0)"

text \<open>A DNS response with no question and one answer: owner name \<open>a\<close> written out,
  type NS, class IN, TTL 0, and as data a compression pointer to offset 12, the owner
  name. And the unit it parses to.\<close>

definition ns_answer_packet :: "byte list" where
  "ns_answer_packet =
     [0, 0, 0, 0, 0, 0, 0, 1, 0, 0, 0, 0,
      1, 0x61, 0, 0, 2, 0, 1, 0, 0, 0, 0, 0, 2, 0xc0, 0x0c]"

definition ns_answer_unit :: DNS where
  "ns_answer_unit =
     \<lparr> dns_hdr = \<lparr> hdr_id = 0, hdr_flags = 0, questions = 0, answers = 1,
                     authority = 0, additional = 0 \<rparr>,
       records_data = [1, 0x61, 0, 0, 2, 0, 1, 0, 0, 0, 0, 0, 2, 0xc0, 0x0c],
       answers_idx = 0, authority_idx = 15, additional_idx = 15 \<rparr>"

text \<open>The unit after \<open>add_query\<close> of the name \<open>a.\<close>, type A, class IN, on a fresh unit.\<close>

definition trailing_dot_unit :: DNS where
  "trailing_dot_unit =
     \<lparr> dns_hdr = \<lparr> hdr_id = 0, hdr_flags = 0, questions = 1, answers = 0,
                     authority = 0, additional = 0 \<rparr>,
       records_data = [1, 0x61, 0, 0, 0, 1, 0, 1],
       answers_idx = 8, authority_idx = 8, additional_idx = 8 \<rparr>"

text \<open>An A record for the name \<open>a\<close> with TTL 1, an address conversion that knows
  \<open>1.2.3.4\<close>, and the unit after adding the record twice as an answer.\<close>

definition a_record :: Resource where
  "a_record = \<lparr> r_dname = ''a'', r_data = ''1.2.3.4'', r_type = A, r_class = 1, r_ttl = 1 \<rparr>"

definition to_v4_example :: "string \<Rightarrow> byte list option" where
  "to_v4_example s = (if s = ''1.2.3.4'' then Some [1, 2, 3, 4] else None)"

definition to_v6_example :: "string \<Rightarrow> byte list option" where
  "to_v6_example s = None"

definition two_answers_unit :: DNS where
  "two_answers_unit =
     \<lparr> dns_hdr = \<lparr> hdr_id = 0, hdr_flags = 0, questions = 0, answers = 2,
                     authority = 0, additional = 0 \<rparr>,
       records_data = [1, 0x61, 0, 0, 1, 0, 1, 0, 0, 0, 1, 0, 4, 1, 2, 3, 4,
                       1, 0x61, 0, 0, 1, 0, 1, 0, 0, 0, 1, 0, 4, 1, 2, 3, 4],
       answers_idx = 0, authority_idx = 34, additional_idx = 34 \<rparr>"

definition one_answer_unit :: DNS where
  "one_answer_unit =
     \<lparr> dns_hdr = \<lparr> hdr_id = 0, hdr_flags = 0, questions = 0, answers = 1,
                     authority = 0, additional = 0 \<rparr>,
       records_data = [1, 0x61, 0, 0, 1, 0, 1, 0, 0, 0, 1, 0, 4, 1, 2, 3, 4],
       answers_idx = 0, authority_idx = 17, additional_idx = 17 \<rparr>"

text \<open>The 14-bit target of the compression pointer stored at an index, and vectors in
  which every pointer leads to an index before its own.\<close>

definition pointer_target :: "byte list \<Rightarrow> nat \<Rightarrow> 16 word" where
  "pointer_target rd ptr = be16 (rd ! ptr) (rd ! (ptr + 1)) AND 0x3fff"

definition backward_pointers :: "byte list \<Rightarrow> bool" where
  "backward_pointers rd =
     (\<forall>i < length rd. rd ! i AND 0xc0 \<noteq> 0 \<longrightarrow> unat (pointer_target rd i) - 0x0c < i)"

text \<open>The unit of the query for \<open>www.example.com\<close>, type A, class IN, with id 0x1234
  and the RD flag.\<close>

definition example_query_unit :: DNS where
  "example_query_unit =
     \<lparr> dns_hdr = \<lparr> hdr_id = 0x1234, hdr_flags = 0x0100, questions = 1, answers = 0,
                     authority = 0, additional = 0 \<rparr>,
       records_data = [3, 0x77, 0x77, 0x77, 7, 0x65, 0x78, 0x61, 0x6d, 0x70, 0x6c, 0x65,
                       3, 0x63, 0x6f, 0x6d, 0, 0, 1, 0, 1],
       answers_idx = 21, authority_idx = 21, additional_idx = 21 \<rparr>"

text \<open>The unit after \<open>add_query\<close> of the name \<open>b\<close>, type A, class IN, on
  \<open>ns_answer_unit\<close>.\<close>

definition ns_answer_after_query :: DNS where
  "ns_answer_after_query =
     \<lparr> dns_hdr = \<lparr> hdr_id = 0, hdr_flags = 0, questions = 1, answers = 1,
                     authority = 0, additional = 0 \<rparr>,
       records_data = [1, 0x62, 0, 0, 1, 0, 1,
                       1, 0x61, 0, 0, 2, 0, 1, 0, 0, 0, 0, 0, 2, 0xc0, 0x0c],
       answers_idx = 7, authority_idx = 22, additional_idx = 22 \<rparr>"

text \<open>The unit of the insertion-shift scenario: one question of 16 bytes, so that the
  answers start at 0x10, and one answer whose owner name is a compression pointer with
  target 0x1a.\<close>

definition shift_scenario_unit :: DNS where
  "shift_scenario_unit =
     \<lparr> dns_hdr = \<lparr> hdr_id = 0, hdr_flags = 0, questions = 1, answers = 1,
                     authority = 0, additional = 0 \<rparr>,
       records_data = [10, 0x61, 0x61, 0x61, 0x61, 0x61, 0x61, 0x61, 0x61, 0x61, 0x61, 0,
                       0, 1, 0, 1,
                       0xc0, 0x1a, 0, 1, 0, 1, 0, 0, 0, 0, 0, 4, 1, 2, 3, 4],
       answers_idx = 0x10, authority_idx = 0x20, additional_idx = 0x20 \<rparr>"

section \<open>Theorems: IEEE 802.11 tagged parameters\<close>

lemma parse_tagged_stop:
  "stops_at tail \<Longrightarrow> parse_tagged_parameters tail st = st"
  by (subst parse_tagged_parameters.simps) (auto simp: stops_at_def Let_def numeral_2_eq_2)

lemma parse_tagged_step:
  assumes "well_sized p"
  shows "parse_tagged_parameters (opt_option p # opt_length p # opt_value p @ rest) st =
         parse_tagged_parameters rest
           (st\<lparr> options := options st @ [p],
                options_size := options_size st + (ucast (opt_length p) + 2) \<rparr>)"
  using assms
  by (cases p, subst parse_tagged_parameters.simps)
     (simp add: well_sized_def Let_def add_tagged_option_def)

text \<open>Every buffer is a sequence of well-formed triplets followed by a tail at which
  the decoder stops.\<close>

lemma buffer_decomposition:
  "\<exists>ps tail. buffer = encode_tagged ps @ tail \<and> (\<forall>p \<in> set ps. well_sized p) \<and> stops_at tail"
proof (induction buffer rule: length_induct)
  case (1 buffer)
  show ?case
  proof (cases "stops_at buffer")
    case True
    then have "buffer = encode_tagged [] @ buffer \<and> (\<forall>p \<in> set []. well_sized p) \<and> stops_at buffer"
      by simp
    then show ?thesis by blast
  next
    case False
    then have len: "2 \<le> length buffer" and fit: "unat (buffer ! 1) \<le> length buffer - 2"
      by (auto simp: stops_at_def)
    define p where "p = \<lparr> opt_option = buffer ! 0, opt_length = buffer ! 1,
                           opt_value = take (unat (buffer ! 1)) (drop 2 buffer) \<rparr>"
    define rest where "rest = drop (unat (buffer ! 1)) (drop 2 buffer)"
    have wp: "well_sized p" using fit by (simp add: p_def well_sized_def)
    obtain b0 b1 bs where b: "buffer = b0 # b1 # bs"
      using len by (cases buffer; cases "tl buffer") auto
    have eq: "buffer = opt_option p # opt_length p # opt_value p @ rest"
      by (simp add: b p_def rest_def)
    have "length rest < length buffer" using len by (simp add: rest_def)
    then obtain ps tail where
      "rest = encode_tagged ps @ tail" "\<forall>q \<in> set ps. well_sized q" "stops_at tail"
      using 1 by blast
    then have "buffer = encode_tagged (p # ps) @ tail \<and> (\<forall>q \<in> set (p # ps). well_sized q) \<and>
               stops_at tail"
      using eq wp by simp
    then show ?thesis by blast
  qed
qed

text \<open>C9: on any buffer that consists of well-formed \<open>{tag, length, value}\<close> triplets
  followed by a tail that is too short for a triplet or whose declared length overruns
  the remaining bytes, \<open>parse_tagged_parameters\<close> returns normally with exactly the
  well-formed triplets appended, in order, and the tail dropped.\<close>

theorem parse_tagged_parameters_greedy:
  assumes "\<forall>p \<in> set ps. well_sized p" and "stops_at tail"
  shows "parse_tagged_parameters (encode_tagged ps @ tail) st =
         st\<lparr> options := options st @ ps,
             options_size := options_size st + options_bytes ps \<rparr>"
  using assms
proof (induction ps arbitrary: st)
  case Nil
  then show ?case by (simp add: parse_tagged_stop)
next
  case (Cons p ps)
  have wp: "well_sized p" using Cons.prems by simp
  have "parse_tagged_parameters (encode_tagged (p # ps) @ tail) st =
        parse_tagged_parameters (encode_tagged ps @ tail)
          (st\<lparr> options := options st @ [p],
               options_size := options_size st + (ucast (opt_length p) + 2) \<rparr>)"
    using parse_tagged_step [OF wp, of "encode_tagged ps @ tail" st] by simp
  also have "\<dots> = st\<lparr> options := options st @ p # ps,
                      options_size := options_size st + options_bytes (p # ps) \<rparr>"
    using Cons.IH Cons.prems by (simp add: add.assoc)
  finally show ?case .
qed

theorem parse_tagged_parameters_greedy_witness:
  "parse_tagged_parameters [0, 2, 0x61, 0x62, 1, 1, 0x82, 3, 9, 0x55]
     \<lparr> options = [], options_size = 0 \<rparr> =
   \<lparr> options = [\<lparr> opt_option = 0, opt_length = 2, opt_value = [0x61, 0x62] \<rparr>,
                \<lparr> opt_option = 1, opt_length = 1, opt_value = [0x82] \<rparr>],
     options_size = 7 \<rparr>"
  using parse_tagged_parameters_greedy
    [of "[\<lparr> opt_option = 0, opt_length = 2, opt_value = [0x61, 0x62] \<rparr>,
          \<lparr> opt_option = 1, opt_length = 1, opt_value = [0x82] \<rparr>]"
        "[3, 9, 0x55]" "\<lparr> options = [], options_size = 0 \<rparr>"]
  by (simp add: well_sized_def stops_at_def)

section \<open>Theorems: DNS names\<close>

lemma not_mask6: "NOT (mask 6) = (0xc0 :: byte)"
  by (simp add: mask_eq_exp_minus_1)

lemma split6: "(v AND mask 6) OR (v AND NOT (mask 6)) = v" for v :: byte
  by (simp flip: bit.conj_disj_distrib)

lemma ptr_byte_iff: "(v AND 0xc0 = 0) = (v < 0x40)" for v :: byte
proof -
  have a: "(v AND mask 6 = v) = (v < 2 ^ 6)" by (rule mask_eq_iff_w2p) (simp add: word_size)
  show ?thesis
  proof
    assume "v AND 0xc0 = 0"
    then have "v AND mask 6 = v" using split6 [of v] by (simp add: not_mask6)
    then show "v < 0x40" using a by simp
  next
    assume "v < 0x40"
    then have e: "v AND mask 6 = v" using a by simp
    have "v AND NOT (mask 6) = (v AND mask 6) AND NOT (mask 6)" using e by simp
    also have "\<dots> = 0" by (simp add: and.assoc)
    finally show "v AND 0xc0 = 0" by (simp add: not_mask6)
  qed
qed

lemma high_byte_is_pointer: "0x40 \<le> v \<Longrightarrow> v \<noteq> 0 \<and> v AND 0xc0 \<noteq> 0" for v :: byte
  using ptr_byte_iff [of v] by (auto simp: word_le_nat_alt word_less_nat_alt)

text \<open>C10: a length byte of 0x40 or more (so every byte from 0x40 to 0xBF, which is
  neither a label length nor a pointer with both top bits set) has a non-zero
  \<open>AND\<close> with 0xC0, and each of the three routines that walk a name treats it as the
  first byte of a two-byte pointer: \<open>skip_to_dname_end\<close> skips the second byte and is
  done, \<open>compose_name\<close> jumps to the 14-bit offset (or rejects the offset, not the
  byte), and \<open>update_dname\<close> shifts the 14-bit offset when it exceeds the threshold and
  steps over two bytes.\<close>

theorem pointer_classification_lax:
  fixes v :: byte
  assumes "0x40 \<le> v"
  shows "v AND 0xc0 \<noteq> 0 \<and>
         skip_to_dname_end (v # b # rest) = Inr rest \<and>
         (rd ! ptr = v \<and> ptr + 2 \<le> length rd \<longrightarrow>
            compose_name_loop rd ptr out end_ptr =
              (let index = be16 v (rd ! (ptr + 1)) AND 0x3fff
               in if index < 0x0c \<or> length rd \<le> unat index - 0x0c then Some (Inl malformed_packet)
                  else compose_name_loop rd (unat index - 0x0c) out
                         (if end_ptr = None then Some (ptr + 2) else end_ptr)) \<and>
            update_dname rd ptr threshold offset =
              (let index = be16 v (rd ! (ptr + 1)) AND 0x3fff
               in if threshold < ucast index
                  then Inr (write16_at rd ptr (ucast (ucast index + offset) OR 0xc000), ptr + 2)
                  else Inr (rd, ptr + 2)))"
proof -
  have nz: "v \<noteq> 0" and hi: "v AND 0xc0 \<noteq> 0"
    using high_byte_is_pointer [OF assms] by simp_all
  have s: "skip_to_dname_end (v # b # rest) = Inr rest"
    using nz hi by (simp add: skip_to_dname_end.simps skip_def can_read_def)
  have c: "compose_name_loop rd ptr out end_ptr =
              (let index = be16 v (rd ! (ptr + 1)) AND 0x3fff
               in if index < 0x0c \<or> length rd \<le> unat index - 0x0c then Some (Inl malformed_packet)
                  else compose_name_loop rd (unat index - 0x0c) out
                         (if end_ptr = None then Some (ptr + 2) else end_ptr))"
    if "rd ! ptr = v" "ptr + 2 \<le> length rd"
    using that nz hi by (subst compose_name_loop.simps) (simp add: Let_def)
  have u: "update_dname rd ptr threshold offset =
              (let index = be16 v (rd ! (ptr + 1)) AND 0x3fff
               in if threshold < ucast index
                  then Inr (write16_at rd ptr (ucast (ucast index + offset) OR 0xc000), ptr + 2)
                  else Inr (rd, ptr + 2))"
    if "rd ! ptr = v" "ptr + 2 \<le> length rd"
    using that nz hi by (subst update_dname.simps) (simp add: Let_def)
  show ?thesis using hi s c u by blast
qed

theorem pointer_classification_lax_witness:
  "(0x80 :: byte) AND 0xc0 \<noteq> 0 \<and>
   skip_to_dname_end [0x80, 0x0c, 7, 7] = Inr [7, 7] \<and>
   compose_name_loop [0, 0x80, 0x0c] 1 [] None = Some (Inr (0, [], Some 3)) \<and>
   update_dname [0, 0x80, 0x0c] 1 5 3 = Inr ([0, 0xc0, 0x0f], 3)"
proof -
  have h: "(0x40 :: byte) \<le> 0x80" by simp
  have e: "compose_name_loop [0, 0x80, 0x0c] 0 [] (Some 3) = Some (Inr (0, [], Some 3))"
    by (subst compose_name_loop.simps) simp
  show ?thesis
    using pointer_classification_lax [OF h, of "0x0c" "[7, 7]" "[0, 0x80, 0x0c]" 1 "[]" None 5 3] e
    by (simp add: be16_def write16_at_def numeral_3_eq_3)
qed

text \<open>Where \<open>compose_name\<close> does return: if every pointer of the vector leads to an
  index before its own, each round either moves to a smaller index with the output as
  it is, or appends a non-empty label to an output of at most 254 bytes. A cycle that
  crosses a label ends at the 255-byte bound.\<close>

lemma compose_name_loop_returns:
  assumes bp: "backward_pointers rd"
  shows "\<exists>y. compose_name_loop rd ptr out end_ptr = Some y"
proof (induction "256 - length out" arbitrary: ptr out end_ptr rule: less_induct)
  case less
  note outer = less
  show ?case
  proof (induction ptr arbitrary: end_ptr rule: less_induct)
    case (less ptr)
    note inner = less
    show ?case
    proof (cases "length rd \<le> ptr \<or> rd ! ptr = 0")
      case True
      then show ?thesis by (subst compose_name_loop.simps) auto
    next
      case False
      then have inb: "ptr < length rd" and nz: "rd ! ptr \<noteq> 0" by auto
      show ?thesis
      proof (cases "rd ! ptr AND 0xc0 \<noteq> 0")
        case True
        have bwd: "unat (pointer_target rd ptr) - 0x0c < ptr"
          using bp inb True by (simp add: backward_pointers_def)
        have rec: "\<exists>y. compose_name_loop rd (unat (pointer_target rd ptr) - 0x0c) out e = Some y" for e
          using inner [OF bwd] by simp
        show ?thesis
          using inb nz True rec
          by (subst compose_name_loop.simps) (auto simp: Let_def pointer_target_def)
      next
        case False
        define n where "n = unat (rd ! ptr)"
        have npos: "0 < n" using nz by (simp add: n_def unat_gt_0)
        show ?thesis
        proof (cases "length rd < ptr + 1 + n \<or> 255 < length out + n + 1")
          case True
          then show ?thesis
            using inb nz False
            by (subst compose_name_loop.simps) (auto simp: Let_def n_def)
        next
          case fits: False
          define out' where
            "out' = out @ (if out \<noteq> [] then [0x2e] else []) @ take n (drop (ptr + 1) rd)"
          have "length out < length out'" using fits npos by (simp add: out'_def)
          moreover have "length out < 256" using fits by simp
          ultimately have dec: "256 - length out' < 256 - length out" by simp
          have rec: "\<exists>y. compose_name_loop rd (ptr + 1 + n) out' end_ptr = Some y"
            using outer [OF dec] by simp
          show ?thesis
            using inb nz False fits rec
            by (subst compose_name_loop.simps) (simp add: Let_def n_def out'_def)
        qed
      qed
    qed
  qed
qed

lemma compose_name_returns:
  "backward_pointers rd \<Longrightarrow> \<exists>y. compose_name rd ptr = Some y"
  using compose_name_loop_returns [of rd ptr "[]" None]
  by (auto simp: compose_name_def split: sum.splits)

lemma label_cycle_hits_name_bound:
  "compose_name [1, 0x61, 0xc0, 0x0c] 0 = Some (Inl malformed_packet)"
  by code_simp

lemma self_pointer_never_returns:
  "compose_name_loop rd ptr out end_ptr = Some y \<Longrightarrow>
   \<not> (2 \<le> length rd \<and> rd ! 0 = 0xc0 \<and> rd ! 1 = 0x0c \<and> ptr = 0)"
  apply (erule compose_name_loop.raw_induct
        [where P = "\<lambda>rd ptr out e y. \<not> (2 \<le> length rd \<and> rd ! 0 = 0xc0 \<and> rd ! 1 = 0x0c \<and> ptr = 0)", rotated])
  apply (rule notI)
  apply (elim conjE)
  apply (simp add: be16_def split: if_splits)
   apply fastforce+
  done

lemma self_pointer_diverges:
  assumes "2 \<le> length rd" and "rd ! 0 = 0xc0" and "rd ! 1 = 0x0c"
  shows "compose_name rd 0 = None"
proof -
  have "compose_name_loop rd 0 [] None = None"
    using self_pointer_never_returns [of rd 0 "[]" None] assms
    by (cases "compose_name_loop rd 0 [] None") auto
  then show ?thesis by (simp add: compose_name_def)
qed

text \<open>C7: \<open>compose_name\<close> does not return on a name that is a compression pointer to
  itself. The target passes the bounds check, no label is crossed, so the 255-byte
  bound is never consulted. The message below parses, and \<open>queries\<close> on the parsed unit
  never returns either.\<close>

theorem compose_name_self_pointer_diverges:
  "compose_name [0xc0, 0x0c] 0 = None \<and>
   DNS_parse cyclic_question_packet =
     Inr \<lparr> dns_hdr = \<lparr> hdr_id = 0x1234, hdr_flags = 0x0100, questions = 1, answers = 0,
                       authority = 0, additional = 0 \<rparr>,
           records_data = [0xc0, 0x0c, 0, 1, 0, 1],
           answers_idx = 6, authority_idx = 6, additional_idx = 6 \<rparr> \<and>
   queries \<lparr> dns_hdr = \<lparr> hdr_id = 0x1234, hdr_flags = 0x0100, questions = 1, answers = 0,
                       authority = 0, additional = 0 \<rparr>,
           records_data = [0xc0, 0x0c, 0, 1, 0, 1],
           answers_idx = 6, authority_idx = 6, additional_idx = 6 \<rparr> = None"
proof -
  have c: "compose_name [0xc0, 0x0c] 0 = None"
    by (rule self_pointer_diverges) simp_all
  have c6: "compose_name [0xc0, 0x0c, 0, 1, 0, 1] 0 = None"
    by (rule self_pointer_diverges) simp_all
  have q: "queries_loop [0xc0, 0x0c, 0, 1, 0, 1] 0 6 [] = None"
    by (subst queries_loop.simps) (simp add: c6)
  show ?thesis
    using c q by (simp add: cyclic_question_packet_def DNS_parse_def can_read_def read_dns_header_def
       be16_def skip_to_dname_end.simps skip_def queries_def)
qed


section \<open>Theorems: DNS sections and pointers under insertion\<close>

text \<open>What \<open>update_dname\<close> does to a name that is a pointer: two bytes change at most;
  a target above the threshold is replaced by the low 16 bits of target plus offset,
  with the two top bits set, and any other target is left as it is.\<close>

lemma be16_bytes_inverse: "be16 (ucast (drop_bit 8 w)) (ucast w) = w" for w :: "16 word"
  unfolding be16_def
  by (rule bit_word_eqI) (auto simp: bit_simps)

lemma write16_at_read:
  assumes "ptr + 2 \<le> length rd"
  shows "length (write16_at rd ptr w) = length rd"
    and "be16 (write16_at rd ptr w ! ptr) (write16_at rd ptr w ! (ptr + 1)) = w"
    and "i \<noteq> ptr \<Longrightarrow> i \<noteq> ptr + 1 \<Longrightarrow> write16_at rd ptr w ! i = rd ! i"
  using assms by (simp_all add: write16_at_def be16_bytes_inverse)

lemma update_dname_shifts_pointer:
  assumes hi: "0x40 \<le> rd ! ptr" and inb: "ptr + 2 \<le> length rd"
  shows "\<exists>rd'. update_dname rd ptr threshold offset = Inr (rd', ptr + 2) \<and>
           length rd' = length rd \<and>
           (\<forall>i. i \<noteq> ptr \<and> i \<noteq> ptr + 1 \<longrightarrow> rd' ! i = rd ! i) \<and>
           (if threshold < ucast (pointer_target rd ptr)
            then be16 (rd' ! ptr) (rd' ! (ptr + 1)) =
                   ucast (ucast (pointer_target rd ptr) + offset) OR 0xc000
            else rd' ! ptr = rd ! ptr \<and> rd' ! (ptr + 1) = rd ! (ptr + 1))"
proof -
  have p: "rd ! ptr \<noteq> 0" "rd ! ptr AND 0xc0 \<noteq> 0"
    using high_byte_is_pointer [OF hi] by simp_all
  have u: "update_dname rd ptr threshold offset =
           (if threshold < ucast (pointer_target rd ptr)
            then Inr (write16_at rd ptr
                        (ucast (ucast (pointer_target rd ptr) + offset) OR 0xc000), ptr + 2)
            else Inr (rd, ptr + 2))"
    using p inb by (subst update_dname.simps) (simp add: Let_def pointer_target_def)
  show ?thesis
    using write16_at_read [OF inb] by (simp add: u)
qed

text \<open>When the sum fits in 14 bits, the new target is the old one plus the offset.\<close>

lemma shifted_target_no_wrap:
  fixes p :: "16 word" and offset :: "32 word"
  assumes fit: "unat p + unat offset < 2 ^ 14"
  shows "unat ((ucast (ucast p + offset) OR 0xc000 :: 16 word) AND 0x3fff) = unat p + unat offset"
proof -
  have m: "(0x3fff :: 16 word) = mask 14" by (simp add: mask_eq_exp_minus_1)
  have a: "(y OR 0xc000) AND 0x3fff = y AND 0x3fff" for y :: "16 word"
    by (simp add: bit.conj_disj_distrib2)
  have up: "unat (ucast p :: 32 word) = unat p"
    using unsigned_less [of p, where ?'a = nat]
    by (simp add: unsigned_ucast_eq take_bit_nat_eq_self)
  have s: "unat (ucast p + offset :: 32 word) = unat p + unat offset"
    using fit by (simp add: unat_word_ariths up)
  have c: "unat (ucast (ucast p + offset :: 32 word) :: 16 word) = unat p + unat offset"
    using fit by (simp add: unsigned_ucast_eq s take_bit_nat_eq_self)
  have "unat (ucast (ucast p + offset :: 32 word) AND mask 14 :: 16 word) = unat p + unat offset"
    using fit by (simp add: unsigned_and_eq c flip: take_bit_eq_mask) (simp add: take_bit_nat_eq_self unsigned_take_bit_eq c)
  then show ?thesis by (subst a) (simp add: m)
qed

text \<open>The insertion-shift scenario, where the owner name of the answer is itself a
  pointer: \<open>add_query\<close> of a name that encodes to 10 bytes inserts 14 bytes at
  threshold 0x10, and the pointer with target 0x1a has target 0x28 afterwards.\<close>

lemma insertion_shift_scenario:
  "pointer_target (records_data shift_scenario_unit) 0x10 = 0x1a \<and>
   (case add_query \<lparr> q_dname = ''bbbbbbbb'', q_type = A, q_class = 1 \<rparr> shift_scenario_unit of
      Inl e \<Rightarrow> False
    | Inr d \<Rightarrow> questions_count d = 2 \<and> answers_idx d = 0x10 + 14 \<and>
               pointer_target (records_data d) (0x10 + 14) = 0x1a + 14)"
  by code_simp

lemma ns_answer_parse: "DNS_parse ns_answer_packet = Inr ns_answer_unit"
  by (simp add: ns_answer_packet_def ns_answer_unit_def DNS_parse_def can_read_def
        read_dns_header_def be16_def skip_to_dname_end.simps skip_def read_be16_def)

text \<open>C1: the response \<open>ns_answer_packet\<close> parses to a unit whose answers start at
  index 0 and whose one answer has as data, at index 13, a compression pointer with
  target 12. \<open>add_query\<close> of the name \<open>b\<close> inserts 7 bytes at threshold 0; the target
  12 exceeds the threshold, and the pointer, now at index 20, still has target 12, not
  19. \<open>update_dname\<close> returns the position of the zero byte that ends the written-out
  owner name, not the position after it, so \<open>update_records\<close> reads the record's type
  one byte early, as 0, and does not visit the data.\<close>

theorem add_query_leaves_rdata_pointer:
  "DNS_parse ns_answer_packet = Inr ns_answer_unit \<and>
   answers_idx ns_answer_unit = 0 \<and>
   pointer_target (records_data ns_answer_unit) 13 = 12 \<and>
   add_query \<lparr> q_dname = ''b'', q_type = A, q_class = 1 \<rparr> ns_answer_unit =
     Inr ns_answer_after_query \<and>
   length (records_data ns_answer_after_query) = length (records_data ns_answer_unit) + 7 \<and>
   pointer_target (records_data ns_answer_after_query) (13 + 7) = 12"
  by (simp add: ns_answer_parse)
     (simp add: ns_answer_unit_def ns_answer_after_query_def pointer_target_def
        add_query_def encode_domain_name_def encode_labels.simps
        find_char_def char_byte_def be16_bytes_def A_def Let_def update_records_def
        answers_count_def authority_count_def additional_count_def questions_count_def
        update_record_def update_dname.simps read16_at_def be16_def MX_def contains_dname_def
        CNAME_def PTR_def NS_def)

text \<open>The model on a name without trailing dot: the query for \<open>www.example.com\<close> is
  stored as one question, decodes to itself, and survives serializing and parsing.\<close>

lemma example_query_roundtrip:
  "add_query \<lparr> q_dname = ''www.example.com'', q_type = A, q_class = 1 \<rparr>
     (DNS_default\<lparr> dns_hdr := (dns_hdr DNS_default)\<lparr> hdr_id := 0x1234, hdr_flags := 0x0100 \<rparr> \<rparr>) =
     Inr example_query_unit \<and>
   queries example_query_unit =
     Some (Inr [\<lparr> q_dname = ''www.example.com'', q_type = A, q_class = 1 \<rparr>]) \<and>
   DNS_parse (DNS_serialize example_query_unit) = Inr example_query_unit"
  by code_simp

text \<open>C2: on a fresh unit, \<open>add_query\<close> of the name \<open>a.\<close> stores eight bytes, since
  \<open>encode_domain_name\<close> writes an empty label for the part after the last dot and then
  the closing zero, and sets the question count to 1 and the three offsets to 8. The
  first range then does not decode to one question: \<open>queries\<close> fails with
  \<open>malformed_packet\<close>, and parsing the serialized bytes puts the offsets at 7, with a
  question of type 0 and class 256 in the first range, not the one added. With
  names that have no trailing dot: after two \<open>add_answer\<close> of an A record with TTL 1,
  \<open>add_query\<close> reads outside \<open>records_data\<close> (the walk of \<open>update_records\<close> is off by
  one from the first owner name on, and takes 256 for the data length).\<close>

theorem add_query_breaks_sections:
  "add_query \<lparr> q_dname = ''a.'', q_type = A, q_class = 1 \<rparr> DNS_default =
     Inr trailing_dot_unit \<and>
   questions_count trailing_dot_unit = 1 \<and>
   queries trailing_dot_unit = Some (Inl malformed_packet) \<and>
   DNS_parse (DNS_serialize trailing_dot_unit) =
     Inr (trailing_dot_unit \<lparr> answers_idx := 7, authority_idx := 7, additional_idx := 7 \<rparr>) \<and>
   queries (trailing_dot_unit \<lparr> answers_idx := 7, authority_idx := 7, additional_idx := 7 \<rparr>) =
     Some (Inr [\<lparr> q_dname = ''a'', q_type = 0, q_class = 256 \<rparr>]) \<and>
   add_answer to_v4_example to_v6_example a_record DNS_default = Inr one_answer_unit \<and>
   add_answer to_v4_example to_v6_example a_record one_answer_unit = Inr two_answers_unit \<and>
   add_query \<lparr> q_dname = ''b'', q_type = A, q_class = 1 \<rparr> two_answers_unit =
     Inl out_of_bounds"
  by code_simp

section \<open>Theorems: IPv6\<close>

lemma unat_byte_less: "unat (b :: byte) < 256"
  using unsigned_less [of b, where ?'a = nat] by simp

lemma unat_ucast_byte: "unat (ucast (b :: byte) :: 32 word) = unat b"
proof -
  have "unat b < 2 ^ 32" using unat_byte_less [of b] by simp
  then show ?thesis by (simp add: unsigned_ucast_eq take_bit_nat_eq_self)
qed

lemma ext_size_unat: "unat ((ucast (len :: byte) + 1) * 8 :: 32 word) = (unat len + 1) * 8"
proof -
  have l: "unat len < 256" by (rule unat_byte_less)
  have "unat (ucast len + 1 :: 32 word) = unat len + 1"
    using l by (simp add: unat_word_ariths unat_ucast_byte)
  then show ?thesis
    using l by (simp only: unat_word_ariths) simp
qed

lemma payload_size_unat:
  "unat ((ucast (len :: byte) + 1) * 8 - 2 :: 32 word) = (unat len + 1) * 8 - 2"
proof -
  have "unat (2 :: 32 word) \<le> unat ((ucast len + 1) * 8 :: 32 word)"
    by (simp only: ext_size_unat) simp
  then have "(2 :: 32 word) \<le> (ucast len + 1) * 8"
    by (simp only: word_le_nat_alt)
  then have "unat ((ucast len + 1) * 8 - 2 :: 32 word) =
             unat ((ucast len + 1) * 8 :: 32 word) - unat (2 :: 32 word)"
    by (rule unat_sub)
  then show ?thesis by (simp only: ext_size_unat) simp
qed

text \<open>The bound the constructor enforces: an extension header with length byte \<open>len\<close>
  is accepted when at least \<open>(len + 1) * 8\<close> bytes follow its two control bytes, of
  which it takes \<open>(len + 1) * 8 - 2\<close>.\<close>

lemma ext_header_bound_check:
  assumes "is_extension_header current"
  shows "parse_headers env current (ext_type # len # rest) u =
         (if length rest < (unat len + 1) * 8 then Inl malformed_packet
          else parse_headers env ext_type (drop ((unat len + 1) * 8 - 2) rest)
                 (add_ext_header
                    \<lparr> eh_option = ext_type, length_field = (unat len + 1) * 8 - 2,
                      eh_data = take ((unat len + 1) * 8 - 2) rest \<rparr> u))"
  apply (subst parse_headers.simps)
  apply (simp only: Let_def ext_size_unat payload_size_unat can_read_def)
  using assms apply simp
  done

text \<open>C4, as stated: the parse of the 40 bytes succeeds, but the unit it gives has no
  inner unit at all, so its inner unit is not a \<open>RawPDU\<close> of length 0. The loop of the
  constructor runs \<open>while (stream)\<close>, and the stream is empty after the fixed header.\<close>

theorem empty_payload_has_no_inner:
  "IPv6_parse no_registry empty_payload_packet = Inr empty_payload_unit \<and>
   inner_pdu empty_payload_unit = None \<and>
   inner_pdu empty_payload_unit \<noteq> Some (RawPDU [])"
  by (simp add: IPv6_parse_def empty_payload_packet_def addr6_def can_read_def
        read_ipv6_header_def be16_def parse_headers.simps empty_payload_unit_def)

text \<open>C4, amended: whatever is registered, parsing the 40 bytes succeeds, the unit has
  no extension header and no inner unit, and serializing it gives the 40 bytes back.\<close>

theorem empty_payload_roundtrip:
  "IPv6_parse env empty_payload_packet = Inr empty_payload_unit \<and>
   ext_headers empty_payload_unit = [] \<and> inner_pdu empty_payload_unit = None \<and>
   IPv6_serialize env empty_payload_unit = Inr empty_payload_packet"
  by (simp add: IPv6_parse_def empty_payload_packet_def addr6_def can_read_def
        read_ipv6_header_def be16_def parse_headers.simps empty_payload_unit_def
        IPv6_serialize_def write_serialization_def IPv6_header_size_def
        write_ipv6_header_def be16_bytes_def Let_def)

text \<open>C5: \<open>hop_by_hop_packet\<close> holds the fixed header and exactly the 8 bytes that its
  one extension header (length byte 0) claims, and the constructor rejects it with
  \<open>malformed_packet\<close>, whatever is registered: \<open>can_read(ext_size)\<close> is asked after the
  two control bytes have been consumed, when 6 bytes remain.\<close>

theorem exact_fit_extension_header_rejected:
  "length hop_by_hop_packet = 40 + (0 + 1) * 8 \<and>
   IPv6_parse env hop_by_hop_packet = Inl malformed_packet"
  by (simp add: IPv6_parse_def hop_by_hop_packet_def addr6_def can_read_def
        read_ipv6_header_def be16_def parse_headers.simps is_extension_header_def
        HOP_BY_HOP_def Let_def)

lemma candidate_addresses:
  assumes "40 \<le> length ptr"
  shows "src_addr (read_ipv6_header (take 40 ptr)) = candidate_src ptr"
    and "dst_addr (read_ipv6_header (take 40 ptr)) = candidate_dst ptr"
  using assms
  by (simp_all add: read_ipv6_header_def candidate_src_def candidate_dst_def drop_take)

text \<open>C6, as stated: for the unit from \<open>::1\<close> to \<open>::2\<close>, the candidate from \<open>::2\<close> to the
  multicast address \<open>ff02::1\<close> does not match; and for the unit from \<open>::1\<close> to
  \<open>ff02::1\<close>, the candidate from \<open>::5\<close> to \<open>::1\<close>, whose source is not the unit's
  destination and whose destination is not a multicast address, matches.\<close>

theorem multicast_relaxation_is_on_own_destination:
  "candidate_src (candidate_packet (addr6 0 0 2) (addr6 0xff 0x02 1)) = addr6 0 0 2 \<and>
   candidate_dst (candidate_packet (addr6 0 0 2) (addr6 0xff 0x02 1)) = addr6 0xff 0x02 1 \<and>
   matches_response no_registry (client_unit (addr6 0 0 1) (addr6 0 0 2))
     (candidate_packet (addr6 0 0 2) (addr6 0xff 0x02 1)) = False \<and>
   matches_response no_registry (client_unit (addr6 0 0 1) (addr6 0xff 0x02 1))
     (candidate_packet (addr6 0 0 5) (addr6 0 0 1)) = True"
  by (simp add: matches_response_def candidate_packet_def addr6_def client_unit_def
        read_ipv6_header_def candidate_src_def candidate_dst_def)

text \<open>C6, amended: for a unit with source \<open>A\<close>, destination \<open>B\<close> and no inner unit, a
  candidate matches exactly when it has at least 40 bytes, its destination is \<open>A\<close>,
  and either its source is \<open>B\<close> or \<open>B\<close>, the unit's own destination, starts with
  \<open>ff02\<close>.\<close>

theorem matches_response_without_inner:
  assumes "inner_pdu u = None"
  shows "matches_response env u ptr =
         (40 \<le> length ptr \<and> candidate_dst ptr = src_addr (header u) \<and>
          (candidate_src ptr = dst_addr (header u) \<or>
           (dst_addr (header u) ! 0 = 0xff \<and> dst_addr (header u) ! 1 = 0x02)))"
proof (cases "length ptr < 40")
  case True
  then show ?thesis by (simp add: matches_response_def)
next
  case False
  then have l: "40 \<le> length ptr" by simp
  show ?thesis
    using assms l
    by (auto simp: matches_response_def Let_def candidate_addresses [OF l])
qed

theorem matches_response_without_inner_witness:
  "inner_pdu (client_unit (addr6 0 0 1) (addr6 0 0 2)) = None \<and>
   matches_response no_registry (client_unit (addr6 0 0 1) (addr6 0 0 2))
     (candidate_packet (addr6 0 0 2) (addr6 0 0 1)) = True \<and>
   matches_response no_registry (client_unit (addr6 0 0 1) (addr6 0 0 2))
     (candidate_packet (addr6 0 0 3) (addr6 0 0 1)) = False"
proof -
  have h: "inner_pdu (client_unit (addr6 0 0 1) (addr6 0 0 2)) = None"
    by (simp add: client_unit_def)
  show ?thesis
    using h
      matches_response_without_inner [OF h, of no_registry
        "candidate_packet (addr6 0 0 2) (addr6 0 0 1)"]
      matches_response_without_inner [OF h, of no_registry
        "candidate_packet (addr6 0 0 3) (addr6 0 0 1)"]
    by (simp add: candidate_packet_def addr6_def client_unit_def candidate_src_def
          candidate_dst_def)
qed

text \<open>The header of a unit that the constructor returns has the sizes of the structure.\<close>

lemma add_ext_header_keeps_header: "header (add_ext_header h u) = header u"
  by (simp add: add_ext_header_def)

lemma parse_headers_keeps_header:
  "parse_headers env current stream u = Inr u' \<Longrightarrow> header u' = header u"
proof (induction env current stream u rule: parse_headers.induct)
  case (1 env current_header stream u)
  show ?case
  proof (cases "stream = []")
    case True
    then show ?thesis using "1.prems" by (simp add: parse_headers.simps)
  next
    case ne: False
    show ?thesis
    proof (cases "is_extension_header current_header")
      case True
      then show ?thesis
        using "1.prems" ne "1.IH"
        by (subst (asm) parse_headers.simps)
           (auto simp: Let_def add_ext_header_keeps_header split: list.splits if_splits)
    next
      case False
      then show ?thesis
        using "1.prems" ne
        by (subst (asm) parse_headers.simps)
           (auto split: sum.splits option.splits)
    qed
  qed
qed

lemma parsed_header_well_formed:
  assumes "IPv6_parse env buffer = Inr u"
  shows "well_formed_header (header u)"
proof -
  have l: "40 \<le> length buffer"
    using assms by (simp add: IPv6_parse_def can_read_def split: if_splits)
  have "header u = read_ipv6_header (take 40 buffer)"
    using assms l parse_headers_keeps_header
    by (fastforce simp: IPv6_parse_def can_read_def Let_def)
  then show ?thesis
    using l by (simp add: well_formed_header_def read_ipv6_header_def)
qed

lemma write_ipv6_header_length:
  "well_formed_header h \<Longrightarrow> length (write_ipv6_header h) = 40"
  by (simp add: well_formed_header_def write_ipv6_header_def be16_bytes_def)

lemma write_ipv6_header_next:
  "well_formed_header h \<Longrightarrow> write_ipv6_header h ! 6 = next_header h"
  by (simp add: well_formed_header_def write_ipv6_header_def be16_bytes_def nth_append)

lemma last_option_byte:
  "concat (map write_header (hs @ [h\<lparr> eh_option := v \<rparr>])) ! ext_headers_bytes hs = v"
  by (simp add: ext_headers_bytes_def write_header_def nth_append)

lemma ext_headers_bytes_option:
  "ext_headers_bytes (hs @ [h\<lparr> eh_option := v \<rparr>]) = ext_headers_bytes (hs @ [h])"
  by (simp add: ext_headers_bytes_def write_header_def)

text \<open>C3: for a unit with an inner unit whose kind has a registered discriminator \<open>d\<close>,
  \<open>write_serialization\<close> into a buffer that holds the headers succeeds; if the unit has
  no extension header, the \<open>next_header\<close> field and byte 6 of the output are \<open>d\<close>;
  otherwise the option of the last extension header, and the byte of the output where
  that header starts, are \<open>d\<close>.\<close>

theorem next_header_chaining:
  assumes inner: "inner_pdu u = Some p"
    and disc: "registered_discriminator env (pdu_type_of p) = Some d"
    and wf: "well_formed_header (header u)"
    and room: "40 + ext_headers_bytes (ext_headers u) \<le> total_sz"
  shows "\<exists>u' written.
           write_serialization env u total_sz = Inr (u', written) \<and>
           (if ext_headers u = [] then next_header (header u') = d \<and> written ! 6 = d
            else eh_option (last (ext_headers u')) = d \<and>
                 written ! (40 + ext_headers_bytes (butlast (ext_headers u))) = d)"
proof -
  define new_flag where
    "new_flag = (if pdu_flag_to_ip_type env (pdu_type_of p) = 0xff \<and>
                    pdu_type_registered env (pdu_type_of p)
                 then pdu_type_to_id env (pdu_type_of p)
                 else pdu_flag_to_ip_type env (pdu_type_of p))"
  have nf: "new_flag = d"
    using disc by (auto simp: registered_discriminator_def new_flag_def split: if_splits)
  show ?thesis
  proof (cases "ext_headers u = []")
    case True
    then show ?thesis
      using inner wf room nf
      by (simp add: write_serialization_def Let_def set_last_next_header_def new_flag_def
            ext_headers_bytes_def write_ipv6_header_length write_ipv6_header_next
            well_formed_header_def nth_append)
  next
    case False
    then have split: "ext_headers u = butlast (ext_headers u) @ [last (ext_headers u)]" by simp
    have len: "ext_headers_bytes
                 (butlast (ext_headers u) @ [(last (ext_headers u))\<lparr> eh_option := d \<rparr>])
               = ext_headers_bytes (ext_headers u)"
      using split
        ext_headers_bytes_option
          [where hs = "butlast (ext_headers u)" and h = "last (ext_headers u)" and v = d]
      by simp
    show ?thesis
      using inner wf room nf False len
        last_option_byte
          [where hs = "butlast (ext_headers u)" and h = "last (ext_headers u)" and v = d]
      by (simp add: write_serialization_def Let_def set_last_next_header_def new_flag_def
            write_ipv6_header_length well_formed_header_def nth_append)
         (simp add: ext_headers_bytes_def)
  qed
qed

theorem next_header_chaining_witness:
  "inner_pdu chained_unit = Some (OtherPDU 1 [0xaa, 0xbb]) \<and>
   registered_discriminator tcp_registry (OTHER 1) = Some 6 \<and>
   (case write_serialization tcp_registry chained_unit 50 of
      Inl e \<Rightarrow> False
    | Inr (u', written) \<Rightarrow> eh_option (last (ext_headers u')) = 6 \<and> written ! 40 = 6)"
proof -
  have h1: "inner_pdu chained_unit = Some (OtherPDU 1 [0xaa, 0xbb])"
    by (simp add: chained_unit_def)
  have h2: "registered_discriminator tcp_registry (pdu_type_of (OtherPDU 1 [0xaa, 0xbb])) = Some 6"
    by (simp add: registered_discriminator_def tcp_registry_def)
  have h3: "well_formed_header (header chained_unit)"
    by (simp add: well_formed_header_def chained_unit_def addr6_def)
  have h4: "40 + ext_headers_bytes (ext_headers chained_unit) \<le> 50"
    by (simp add: ext_headers_bytes_def chained_unit_def write_header_def)
  show ?thesis
    using h1 h2 next_header_chaining [OF h1 h2 h3 h4]
    by (auto simp: chained_unit_def ext_headers_bytes_def)
qed

section \<open>Theorems: network interfaces\<close>

text \<open>The two parts of the constructor that do not depend on the choice among several
  matching routes: the loopback address, and a table without a matching entry.\<close>

lemma loopback_resolves_to_loopback_device:
  "NetworkInterface_of_ip sys loopback_address =
     resolve_index sys (if is_bsd sys then ''lo0'' else ''lo'')"
  by (simp add: NetworkInterface_of_ip_def)

lemma find_best_match_none:
  "\<forall>e \<in> set entries. ip AND route_mask e \<noteq> destination e \<Longrightarrow>
   find_best_match ip entries best = best"
  by (induction entries arbitrary: best) auto

lemma find_best_match_some:
  "e \<in> set entries \<Longrightarrow> ip AND route_mask e = destination e \<Longrightarrow>
   find_best_match ip entries best \<noteq> None"
proof (induction entries arbitrary: best)
  case Nil
  then show ?case by simp
next
  case (Cons x xs)
  have keep: "find_best_match ip xs (Some b) \<noteq> None" for b
    by (induction xs arbitrary: b) (auto split: option.splits)
  show ?case
  proof (cases "e = x")
    case True
    then show ?thesis using Cons.prems keep by (auto split: option.splits)
  next
    case False
    then show ?thesis using Cons by auto
  qed
qed

lemma no_route_is_invalid_interface:
  assumes "ip \<noteq> loopback_address"
  shows "(find_best_match ip (route_entries sys) None = None) =
         (\<forall>e \<in> set (route_entries sys). ip AND route_mask e \<noteq> destination e)"
    and "\<forall>e \<in> set (route_entries sys). ip AND route_mask e \<noteq> destination e \<Longrightarrow>
         NetworkInterface_of_ip sys ip = Inl invalid_interface"
  using assms find_best_match_none [of "route_entries sys" ip None]
    find_best_match_some [of _ "route_entries sys" ip None]
  by (auto simp: NetworkInterface_of_ip_def)

text \<open>C8: with a route to 10.0.0.0/8 of metric 5 through eth0 listed before a default
  route of metric 1 through eth1, the address 10.1.2.3 resolves to eth1 (index 3): the
  default route replaces the longer match because its metric is smaller. With the two
  entries in the other order the same address resolves to eth0 (index 2).\<close>

theorem smaller_metric_beats_longer_mask:
  "NetworkInterface_of_ip
     \<lparr> route_entries = two_routes, if_nametoindex = three_interfaces, is_bsd = False \<rparr>
     0x0a010203 = Inr 3 \<and>
   NetworkInterface_of_ip
     \<lparr> route_entries = rev two_routes, if_nametoindex = three_interfaces, is_bsd = False \<rparr>
     0x0a010203 = Inr 2"
  by (simp add: NetworkInterface_of_ip_def loopback_address_def two_routes_def
        three_interfaces_def resolve_index_def)

end
